theory Spec2Isabelle
  imports Complex_Main
begin

section \<open>Numbers\<close>

text \<open>
  A JavaScript number is an IEEE 754 double, and so is the number that the database
  stores for a path of type \<open>Number\<close>. The quantity of a document is a whole number
  (the schema validates \<open>Number.isInteger\<close>) and is modelled as the integer it equals;
  the result of an arithmetic operation on it is the nearest double, ties going to the
  even significand. Every integer up to \<open>2^53\<close> is a double; beyond, a double has
  \<open>excess_bits\<close> low bits that are zero. The one operation of the program on a stored
  quantity takes an amount away that is at least 1 and at most the quantity, so no result
  leaves the range of the finite doubles.
\<close>

fun excess_bits :: "nat \<Rightarrow> nat" where
  "excess_bits n = (if n < 2 ^ 53 then 0 else Suc (excess_bits (n div 2)))"

declare excess_bits.simps [simp del]

definition round_nat :: "nat \<Rightarrow> nat" where
  "round_nat n =
     (let u = 2 ^ excess_bits n; q = n div u; r = n mod u in
      if 2 * r < u then q * u
      else if u < 2 * r then (q + 1) * u
      else if even q then q * u
      else (q + 1) * u)"

definition round_double :: "int \<Rightarrow> int" where
  "round_double k = (if k < 0 then - int (round_nat (nat (- k))) else int (round_nat (nat k)))"

text \<open>
  A number of a parsed request body: a finite double, or one of the infinities, which
  \<open>JSON.parse\<close> gives for a literal too large for a double (\<open>1e400\<close>).
\<close>

datatype number = Finite rat | PosInfinity | NegInfinity

text \<open>A value of a parsed request body.\<close>

datatype json =
    JNull
  | JBool bool
  | JNum number
  | JStr string
  | JArr "json list"
  | JObj "(string \<times> json) list"

section \<open>Sweet documents (models/Sweet.js)\<close>

text \<open>
  A document of the \<open>Sweet\<close> collection, with the fields of \<open>sweetSchema\<close> and the two
  fields that \<open>timestamps: true\<close> adds. The \<open>_id\<close> of a document is the key under which
  the collection holds it: an ObjectId, written as its 24 lower-case hexadecimal digits.
  Times are milliseconds as natural numbers.
\<close>

type_synonym object_id = string

record sweet =
  name :: string
  category :: string
  price :: rat
  quantity :: int
  description :: "string option"
  inStock :: bool
  createdAt :: nat
  updatedAt :: nat

text \<open>A document in the hands of a handler: its \<open>_id\<close> and its fields.\<close>

type_synonym document = "object_id \<times> sweet"

section \<open>The store\<close>

text \<open>
  The collection maps \<open>_id\<close> to document. Every call that reaches the database is
  recorded, in order, with what it returned, the way a spy on the model would record it.
  Each call on one document is atomic in the database; a handler can be interleaved with
  other handlers only where it awaits such a call.
\<close>

datatype store_op =
    OpFindOneAndUpdate object_id int
  | OpFindById object_id
  | OpSave object_id
  | OpFindByIdAndUpdate object_id
  | OpCreate object_id

datatype outcome = Threw | Returned "sweet option"

record store =
  docs :: "object_id \<rightharpoonup> sweet"
  calls :: "(store_op \<times> outcome) list"

text \<open>
  What the environment decides for one awaited store call: whether the call throws
  (connection lost, the server refusing), and the time at which it runs.
\<close>

record access =
  failing :: bool
  now :: nat

text \<open>What a handler can find thrown inside its \<open>try\<close>.\<close>

datatype thrown =
    TypeError
  | CastError
  | ValidationError "string list"
  | StoreFailure

definition record_call :: "store_op \<Rightarrow> outcome \<Rightarrow> store \<Rightarrow> store" where
  "record_call op r s = s\<lparr>calls := calls s @ [(op, r)]\<rparr>"

text \<open>
  Casting a request parameter to an ObjectId: a string of 24 hexadecimal digits, read
  without regard to the case of the digits. The cast happens in the model layer, before
  anything is sent to the database, and fails with a \<open>CastError\<close>.
\<close>

definition is_hex_digit :: "char \<Rightarrow> bool" where
  "is_hex_digit c = (c \<in> set ''0123456789abcdefABCDEF'')"

definition isValidObjectId :: "string \<Rightarrow> bool" where
  "isValidObjectId raw = (length raw = 24 \<and> list_all is_hex_digit raw)"

definition lower_hex :: "char \<Rightarrow> char" where
  "lower_hex c =
     (if c = CHR ''A'' then CHR ''a'' else if c = CHR ''B'' then CHR ''b''
      else if c = CHR ''C'' then CHR ''c'' else if c = CHR ''D'' then CHR ''d''
      else if c = CHR ''E'' then CHR ''e'' else if c = CHR ''F'' then CHR ''f'' else c)"

definition castObjectId :: "string \<Rightarrow> object_id option" where
  "castObjectId raw = (if isValidObjectId raw then Some (map lower_hex raw) else None)"

text \<open>\<open>Sweet.findById(id)\<close>.\<close>

definition findById :: "string \<Rightarrow> access \<Rightarrow> store \<Rightarrow> (thrown + document option) \<times> store" where
  "findById raw e s =
     (case castObjectId raw of
        None \<Rightarrow> (Inl CastError, s)
      | Some i \<Rightarrow>
          if failing e then (Inl StoreFailure, record_call (OpFindById i) Threw s)
          else (Inr (map_option (Pair i) (docs s i)), record_call (OpFindById i) (Returned (docs s i)) s))"

text \<open>
  \<open>Sweet.findOneAndUpdate({_id: id, quantity: {$gte: n}}, {$inc: {quantity: -n}},
  {new: true, runValidators: true})\<close>: the call of \<open>purchaseSweet\<close>. The database adds
  \<open>-n\<close> to the stored number: exactly where it holds the number as a 32-bit integer,
  and as doubles are added otherwise. Update validators do not run on \<open>$inc\<close>; the
  matched document gets a new \<open>updatedAt\<close>; no \<open>save\<close> hook runs.
\<close>

definition findOneAndUpdate :: "string \<Rightarrow> int \<Rightarrow> access \<Rightarrow> store \<Rightarrow> (thrown + document option) \<times> store" where
  "findOneAndUpdate raw n e s =
     (case castObjectId raw of
        None \<Rightarrow> (Inl CastError, s)
      | Some i \<Rightarrow>
          if failing e then (Inl StoreFailure, record_call (OpFindOneAndUpdate i n) Threw s)
          else
            (case docs s i of
               None \<Rightarrow> (Inr None, record_call (OpFindOneAndUpdate i n) (Returned None) s)
             | Some d \<Rightarrow>
                 if n \<le> quantity d then
                   let d' = d\<lparr>quantity := round_double (quantity d - n), updatedAt := now e\<rparr>
                   in (Inr (Some (i, d')),
                       record_call (OpFindOneAndUpdate i n) (Returned (Some d')) (s\<lparr>docs := (docs s)(i \<mapsto> d')\<rparr>))
                 else (Inr None, record_call (OpFindOneAndUpdate i n) (Returned None) s)))"

text \<open>
  \<open>sweetSchema.pre('save')\<close>, and \<open>doc.save()\<close> on a document that was loaded from
  the collection and then changed locally. The hook recomputes \<open>inStock\<close>. Only the
  paths that differ from the loaded document are written, here \<open>inStock\<close> at most,
  together with \<open>updatedAt\<close>; the other fields of the stored document stay as the
  database has them at that moment. A document that is no longer in the collection makes
  \<open>save\<close> throw.
\<close>

definition pre_save :: "sweet \<Rightarrow> sweet" where
  "pre_save d = d\<lparr>inStock := (quantity d > 0)\<rparr>"

definition save :: "object_id \<Rightarrow> sweet \<Rightarrow> sweet \<Rightarrow> access \<Rightarrow> store \<Rightarrow> (thrown + sweet) \<times> store" where
  "save i loaded d e s =
     (let d' = pre_save d in
      if failing e then (Inl StoreFailure, record_call (OpSave i) Threw s)
      else
        (case docs s i of
           None \<Rightarrow> (Inl StoreFailure, record_call (OpSave i) Threw s)
         | Some cur \<Rightarrow>
             if inStock d' = inStock loaded then
               (Inr d', record_call (OpSave i) (Returned (Some cur)) s)
             else
               let w = cur\<lparr>inStock := inStock d', updatedAt := now e\<rparr>
               in (Inr (d'\<lparr>updatedAt := now e\<rparr>),
                   record_call (OpSave i) (Returned (Some w)) (s\<lparr>docs := (docs s)(i \<mapsto> w)\<rparr>))))"

section \<open>Responses\<close>

text \<open>
  A message is kept as the pieces of the template literal that builds it: the text, and
  the numbers interpolated into it, which JavaScript then prints with the \<open>toString\<close> of
  \<open>Number\<close>.
\<close>

datatype piece = Text string | Number int

datatype payload = NoData | Doc object_id sweet

datatype response =
  Response (status: nat) (success: bool) (message: "piece list option") (payload: payload)

definition InvalidAmount :: response where
  "InvalidAmount = Response 400 False (Some [Text ''Quantity must be a positive integer'']) NoData"

definition NotFound :: response where
  "NotFound = Response 404 False (Some [Text ''Sweet not found'']) NoData"

definition InsufficientStock :: "int \<Rightarrow> response" where
  "InsufficientStock available =
     Response 400 False
       (Some [Text ''Insufficient quantity. Only '', Number available, Text '' available.'']) NoData"

definition PurchaseFailed :: response where
  "PurchaseFailed = Response 500 False (Some [Text ''Error processing purchase'']) NoData"

definition Purchased :: "object_id \<Rightarrow> sweet \<Rightarrow> response" where
  "Purchased i d = Response 200 True (Some [Text ''Purchase successful'']) (Doc i d)"

section \<open>purchaseSweet (controllers/sweetController.js)\<close>

text \<open>
  \<open>req.body\<close>: \<open>undefined\<close> when the request had no body for the parser to read, and
  otherwise the parsed object, of which the handler reads \<open>quantity\<close>, there or not.
\<close>

datatype purchase_body = NoBody | Body "json option"

text \<open>\<open>const { quantity = 1 } = req.body\<close>, for a body that is there.\<close>

definition requested :: "json option \<Rightarrow> json" where
  "requested q = (case q of None \<Rightarrow> JNum (Finite 1) | Some v \<Rightarrow> v)"

text \<open>
  The comparison \<open>quantity < 1\<close> first turns an object or an array into a primitive.
  On a parsed object, an own \<open>toString\<close> is not callable and hides the inherited one,
  and \<open>valueOf\<close>, own or inherited, yields no primitive: the conversion throws a
  \<open>TypeError\<close>. An array is converted by joining its elements as strings, which throws
  on the same objects.
\<close>

fun to_primitive_throws :: "json \<Rightarrow> bool" where
  "to_primitive_throws (JObj members) = (''toString'' \<in> set (map fst members))"
| "to_primitive_throws (JArr elements) = list_ex to_primitive_throws elements"
| "to_primitive_throws JNull = False"
| "to_primitive_throws (JBool b) = False"
| "to_primitive_throws (JNum n) = False"
| "to_primitive_throws (JStr v) = False"

text \<open>
  \<open>quantity < 1 || !Number.isInteger(quantity)\<close>, once the comparison has not thrown.
  \<open>Number.isInteger\<close> is false on everything that is not a finite number, so the test
  holds for every such value, whatever the comparison gives.
\<close>

definition isInteger :: "rat \<Rightarrow> bool" where
  "isInteger r = (r = of_int \<lfloor>r\<rfloor>)"

definition invalid_quantity :: "json \<Rightarrow> bool" where
  "invalid_quantity v = (case v of JNum (Finite r) \<Rightarrow> r < 1 \<or> \<not> isInteger r | _ \<Rightarrow> True)"

definition amount_of :: "json \<Rightarrow> int" where
  "amount_of v = (case v of JNum (Finite r) \<Rightarrow> \<lfloor>r\<rfloor> | _ \<Rightarrow> 0)"

text \<open>The \<open>catch\<close> block of \<open>purchaseSweet\<close>.\<close>

definition purchase_catch :: "thrown \<Rightarrow> response" where
  "purchase_catch err = (if err = CastError then NotFound else PurchaseFailed)"

text \<open>
  The handler run on its own, with no other handler between its awaits: \<open>e1\<close> is the
  environment of the first awaited call, \<open>e2\<close> of the second.
\<close>

definition purchaseSweet :: "string \<Rightarrow> purchase_body \<Rightarrow> access \<Rightarrow> access \<Rightarrow> store \<Rightarrow> response \<times> store" where
  "purchaseSweet raw body e1 e2 s =
     (case body of
        NoBody \<Rightarrow> (purchase_catch TypeError, s)
      | Body q \<Rightarrow>
          let v = requested q in
          if to_primitive_throws v then (purchase_catch TypeError, s)
          else if invalid_quantity v then (InvalidAmount, s)
          else
            (case findOneAndUpdate raw (amount_of v) e1 s of
               (Inl err, s1) \<Rightarrow> (purchase_catch err, s1)
             | (Inr None, s1) \<Rightarrow>
                 (case findById raw e2 s1 of
                    (Inl err, s2) \<Rightarrow> (purchase_catch err, s2)
                  | (Inr None, s2) \<Rightarrow> (NotFound, s2)
                  | (Inr (Some (i, existingSweet)), s2) \<Rightarrow> (InsufficientStock (quantity existingSweet), s2))
             | (Inr (Some (i, sweet)), s1) \<Rightarrow>
                 (case save i sweet (sweet\<lparr>inStock := (quantity sweet > 0)\<rparr>) e2 s1 of
                    (Inl err, s2) \<Rightarrow> (purchase_catch err, s2)
                  | (Inr saved, s2) \<Rightarrow> (Purchased i saved, s2))))"

subsection \<open>The handler cut at its awaits\<close>

text \<open>
  Between two awaited store calls of one handler, other handlers may run. A handler in
  flight is at one of these points: entered and nothing awaited yet; \<open>findOneAndUpdate\<close>
  returned \<open>null\<close> and \<open>findById\<close> comes next; \<open>findOneAndUpdate\<close> returned the
  document and \<open>save\<close> comes next; the response is sent. One step runs the handler up
  to and including its next store call.
\<close>

datatype purchase_pc =
    Called string purchase_body
  | AwaitFindById string
  | AwaitSave object_id sweet
  | Responded response

fun purchase_step :: "purchase_pc \<Rightarrow> access \<Rightarrow> store \<Rightarrow> purchase_pc \<times> store" where
  "purchase_step (Called raw NoBody) e s = (Responded (purchase_catch TypeError), s)"
| "purchase_step (Called raw (Body q)) e s =
     (let v = requested q in
      if to_primitive_throws v then (Responded (purchase_catch TypeError), s)
      else if invalid_quantity v then (Responded InvalidAmount, s)
      else
        (case findOneAndUpdate raw (amount_of v) e s of
           (Inl err, s1) \<Rightarrow> (Responded (purchase_catch err), s1)
         | (Inr None, s1) \<Rightarrow> (AwaitFindById raw, s1)
         | (Inr (Some (i, sweet)), s1) \<Rightarrow> (AwaitSave i sweet, s1)))"
| "purchase_step (AwaitFindById raw) e s =
     (case findById raw e s of
        (Inl err, s2) \<Rightarrow> (Responded (purchase_catch err), s2)
      | (Inr None, s2) \<Rightarrow> (Responded NotFound, s2)
      | (Inr (Some (i, existingSweet)), s2) \<Rightarrow> (Responded (InsufficientStock (quantity existingSweet)), s2))"
| "purchase_step (AwaitSave i sweet) e s =
     (case save i sweet (sweet\<lparr>inStock := (quantity sweet > 0)\<rparr>) e s of
        (Inl err, s2) \<Rightarrow> (Responded (purchase_catch err), s2)
      | (Inr saved, s2) \<Rightarrow> (Responded (Purchased i saved), s2))"
| "purchase_step (Responded r) e s = (Responded r, s)"

text \<open>
  Concurrent purchase handlers: a schedule names, for each step, the handler that moves
  and the environment of its store call. A step of a handler that is not there, or that
  has responded, changes nothing.
\<close>

fun run :: "(nat \<times> access) list \<Rightarrow> purchase_pc list \<times> store \<Rightarrow> purchase_pc list \<times> store" where
  "run [] c = c"
| "run ((k, e) # sched) (ps, s) =
     (if k < length ps then
        (case purchase_step (ps ! k) e s of (p', s') \<Rightarrow> run sched (ps[k := p'], s'))
      else run sched (ps, s))"

text \<open>The status of the answer of a handler, once it has answered.\<close>

definition status_of :: "purchase_pc \<Rightarrow> nat option" where
  "status_of p = (case p of Responded r \<Rightarrow> Some (status r) | _ \<Rightarrow> None)"

text \<open>The amounts that the recorded conditional decrements took from the document \<open>i\<close>.\<close>

fun decrement_of :: "object_id \<Rightarrow> store_op \<times> outcome \<Rightarrow> int" where
  "decrement_of i (OpFindOneAndUpdate j n, Returned (Some d)) = (if j = i then n else 0)"
| "decrement_of i (OpFindOneAndUpdate j n, Returned None) = 0"
| "decrement_of i (OpFindOneAndUpdate j n, Threw) = 0"
| "decrement_of i (OpFindById j, r) = 0"
| "decrement_of i (OpSave j, r) = 0"
| "decrement_of i (OpFindByIdAndUpdate j, r) = 0"
| "decrement_of i (OpCreate j, r) = 0"

definition decremented :: "object_id \<Rightarrow> (store_op \<times> outcome) list \<Rightarrow> int" where
  "decremented i cs = sum_list (map (decrement_of i) cs)"

section \<open>getSweetById\<close>

definition getSweetById :: "string \<Rightarrow> access \<Rightarrow> store \<Rightarrow> response \<times> store" where
  "getSweetById raw e s =
     (case findById raw e s of
        (Inr None, s1) \<Rightarrow> (NotFound, s1)
      | (Inr (Some (i, sweet)), s1) \<Rightarrow> (Response 200 True None (Doc i sweet), s1)
      | (Inl err, s1) \<Rightarrow>
          (if err = CastError then NotFound
           else Response 500 False (Some [Text ''Error fetching sweet'']) NoData, s1))"

section \<open>Schema validation\<close>

text \<open>
  The body of a create or update request, \<open>{ name, category, price, quantity,
  description }\<close>: a field is \<open>None\<close> when the body does not have it, and otherwise has
  the type that the schema declares for it. Lengths count the characters of the model's
  strings.
\<close>

record sweet_body =
  body_name :: "string option"
  body_category :: "string option"
  body_price :: "rat option"
  body_quantity :: "rat option"
  body_description :: "string option"

definition is_space :: "char \<Rightarrow> bool" where
  "is_space c = (c \<in> set [CHR '' '', CHR 0x09, CHR 0x0A, CHR 0x0B, CHR 0x0C, CHR 0x0D])"

definition trim :: "string \<Rightarrow> string" where
  "trim v = rev (dropWhile is_space (rev (dropWhile is_space v)))"

definition categories :: "string list" where
  "categories = [''Chocolate'', ''Candy'', ''Gummy'', ''Lollipop'', ''Hard Candy'', ''Soft Candy'', ''Other'']"

text \<open>The validators of each path, in the order of the schema; the first that fails reports.\<close>

definition validate_name :: "string \<Rightarrow> string list" where
  "validate_name v =
     (if v = [] then [''Sweet name is required'']
      else if length v < 2 then [''Sweet name must be at least 2 characters long'']
      else if 100 < length v then [''Sweet name cannot exceed 100 characters'']
      else [])"

definition validate_category :: "string \<Rightarrow> string list" where
  "validate_category v =
     (if v = [] then [''Category is required'']
      else if v \<in> set categories then []
      else [v @ '' is not a valid category''])"

definition validate_price :: "rat \<Rightarrow> string list" where
  "validate_price v =
     (if v < 0 then [''Price must be a positive number'']
      else if v > 0 then []
      else [''Price must be greater than 0''])"

definition validate_quantity :: "rat \<Rightarrow> string list" where
  "validate_quantity v =
     (if v < 0 then [''Quantity cannot be negative'']
      else if isInteger v then []
      else [''Quantity must be a whole number''])"

definition validate_description :: "string \<Rightarrow> string list" where
  "validate_description v =
     (if 500 < length v then [''Description cannot exceed 500 characters''] else [])"

definition supplied :: "('a \<Rightarrow> string list) \<Rightarrow> 'a option \<Rightarrow> string list" where
  "supplied check v = (case v of None \<Rightarrow> [] | Some x \<Rightarrow> check x)"

text \<open>
  Update validators (\<open>runValidators: true\<close>) look only at the paths that the update
  sets; keys whose value is \<open>undefined\<close> are not part of the update (Mongoose 6 and
  later strip them; the repository runs 9.x). String paths are trimmed when they are cast.
  The keys of the update are moved under \<open>$set\<close> last key first, and the paths are
  validated, and their errors reported, in that order.
\<close>

definition update_validators :: "sweet_body \<Rightarrow> string list" where
  "update_validators b =
     supplied validate_description (map_option trim (body_description b)) @
     supplied validate_quantity (body_quantity b) @
     supplied validate_price (body_price b) @
     supplied validate_category (map_option trim (body_category b)) @
     supplied validate_name (map_option trim (body_name b))"

definition or_else :: "'a option \<Rightarrow> 'a \<Rightarrow> 'a" where
  "or_else v d = (case v of None \<Rightarrow> d | Some x \<Rightarrow> x)"

definition apply_update :: "sweet_body \<Rightarrow> nat \<Rightarrow> sweet \<Rightarrow> sweet" where
  "apply_update b t d =
     d\<lparr>name := or_else (map_option trim (body_name b)) (name d),
       category := or_else (map_option trim (body_category b)) (category d),
       price := or_else (body_price b) (price d),
       quantity := or_else (map_option floor (body_quantity b)) (quantity d),
       description := (case body_description b of None \<Rightarrow> description d | Some v \<Rightarrow> Some (trim v)),
       updatedAt := t\<rparr>"

text \<open>
  \<open>Sweet.findByIdAndUpdate(id, { name, category, price, quantity, description },
  {new: true, runValidators: true})\<close>. No \<open>save\<close> hook runs on this path.
\<close>

definition findByIdAndUpdate :: "string \<Rightarrow> sweet_body \<Rightarrow> access \<Rightarrow> store \<Rightarrow> (thrown + document option) \<times> store" where
  "findByIdAndUpdate raw b e s =
     (case castObjectId raw of
        None \<Rightarrow> (Inl CastError, s)
      | Some i \<Rightarrow>
          if update_validators b = [] then
            if failing e then (Inl StoreFailure, record_call (OpFindByIdAndUpdate i) Threw s)
            else
              (case docs s i of
                 None \<Rightarrow> (Inr None, record_call (OpFindByIdAndUpdate i) (Returned None) s)
               | Some d \<Rightarrow>
                   let d' = apply_update b (now e) d
                   in (Inr (Some (i, d')),
                       record_call (OpFindByIdAndUpdate i) (Returned (Some d')) (s\<lparr>docs := (docs s)(i \<mapsto> d')\<rparr>)))
          else (Inl (ValidationError (update_validators b)), s))"

text \<open>
  \<open>Sweet.create(doc)\<close>: every path is validated, a missing required path fails, the
  defaults apply (\<open>quantity\<close> 0, \<open>inStock\<close> true), the \<open>save\<close> hook runs, and the
  document is inserted under the fresh identifier \<open>i\<close>, which the driver generates.
\<close>

definition required :: "string \<Rightarrow> ('a \<Rightarrow> string list) \<Rightarrow> 'a option \<Rightarrow> string list" where
  "required msg check v = (case v of None \<Rightarrow> [msg] | Some x \<Rightarrow> check x)"

definition document_validators :: "sweet_body \<Rightarrow> string list" where
  "document_validators b =
     required ''Sweet name is required'' validate_name (map_option trim (body_name b)) @
     required ''Category is required'' validate_category (map_option trim (body_category b)) @
     required ''Price is required'' validate_price (body_price b) @
     supplied validate_quantity (body_quantity b) @
     supplied validate_description (map_option trim (body_description b))"

definition new_document :: "sweet_body \<Rightarrow> nat \<Rightarrow> sweet" where
  "new_document b t =
     \<lparr>name = or_else (map_option trim (body_name b)) [],
      category = or_else (map_option trim (body_category b)) [],
      price = or_else (body_price b) 0,
      quantity = or_else (map_option floor (body_quantity b)) 0,
      description = map_option trim (body_description b),
      inStock = True,
      createdAt = t,
      updatedAt = t\<rparr>"

definition create :: "object_id \<Rightarrow> sweet_body \<Rightarrow> access \<Rightarrow> store \<Rightarrow> (thrown + document) \<times> store" where
  "create i b e s =
     (if document_validators b = [] then
        if failing e \<or> docs s i \<noteq> None then (Inl StoreFailure, record_call (OpCreate i) Threw s)
        else
          let d = pre_save (new_document b (now e))
          in (Inr (i, d), record_call (OpCreate i) (Returned (Some d)) (s\<lparr>docs := (docs s)(i \<mapsto> d)\<rparr>))
      else (Inl (ValidationError (document_validators b)), s))"

section \<open>createSweet and updateSweet\<close>

fun join :: "string list \<Rightarrow> string" where
  "join [] = []"
| "join [m] = m"
| "join (m # ms) = m @ '', '' @ join ms"

definition BadRequest :: "string \<Rightarrow> response" where
  "BadRequest msg = Response 400 False (Some [Text msg]) NoData"

definition createSweet :: "object_id \<Rightarrow> sweet_body \<Rightarrow> access \<Rightarrow> store \<Rightarrow> response \<times> store" where
  "createSweet fresh b e s =
     (if body_name b = None \<or> body_name b = Some [] \<or> body_category b = None \<or> body_category b = Some []
         \<or> body_price b = None \<or> body_quantity b = None
      then (BadRequest ''Please provide name, category, price, and quantity'', s)
      else if (case body_price b of Some p \<Rightarrow> p \<le> 0 | None \<Rightarrow> False)
      then (BadRequest ''Price must be greater than 0'', s)
      else if (case body_quantity b of Some q \<Rightarrow> q < 0 | None \<Rightarrow> False)
      then (BadRequest ''Quantity cannot be negative'', s)
      else
        (case create fresh b e s of
           (Inr (i, sweet), s1) \<Rightarrow> (Response 201 True (Some [Text ''Sweet created successfully'']) (Doc i sweet), s1)
         | (Inl (ValidationError messages), s1) \<Rightarrow> (BadRequest (join messages), s1)
         | (Inl err, s1) \<Rightarrow> (Response 500 False (Some [Text ''Error creating sweet'']) NoData, s1)))"

definition updateSweet :: "string \<Rightarrow> sweet_body \<Rightarrow> access \<Rightarrow> store \<Rightarrow> response \<times> store" where
  "updateSweet raw b e s =
     (if (case body_price b of Some p \<Rightarrow> p \<le> 0 | None \<Rightarrow> False)
      then (BadRequest ''Price must be greater than 0'', s)
      else if (case body_quantity b of Some q \<Rightarrow> q < 0 | None \<Rightarrow> False)
      then (BadRequest ''Quantity cannot be negative'', s)
      else
        (case findByIdAndUpdate raw b e s of
           (Inr None, s1) \<Rightarrow> (NotFound, s1)
         | (Inr (Some (i, sweet)), s1) \<Rightarrow>
             (Response 200 True (Some [Text ''Sweet updated successfully'']) (Doc i sweet), s1)
         | (Inl CastError, s1) \<Rightarrow> (NotFound, s1)
         | (Inl (ValidationError messages), s1) \<Rightarrow> (BadRequest (join messages), s1)
         | (Inl err, s1) \<Rightarrow> (Response 500 False (Some [Text ''Error updating sweet'']) NoData, s1)))"

section \<open>Fixtures (tests/sweets.test.js)\<close>

definition fakeId :: object_id where
  "fakeId = ''507f1f77bcf86cd799439011''"

definition chocolateBar :: "int \<Rightarrow> bool \<Rightarrow> sweet" where
  "chocolateBar q st =
     \<lparr>name = ''Chocolate Bar'', category = ''Chocolate'', price = 5, quantity = q,
      description = Some ''Delicious chocolate'', inStock = st, createdAt = 1000, updatedAt = 1000\<rparr>"

definition shop :: "int \<Rightarrow> bool \<Rightarrow> store" where
  "shop q st = \<lparr>docs = [fakeId \<mapsto> chocolateBar q st], calls = []\<rparr>"

definition answering :: "nat \<Rightarrow> access" where
  "answering t = \<lparr>failing = False, now = t\<rparr>"

definition throwing :: "nat \<Rightarrow> access" where
  "throwing t = \<lparr>failing = True, now = t\<rparr>"

text \<open>The body \<open>{ "quantity": n }\<close> of a purchase request.\<close>

definition buying :: "int \<Rightarrow> purchase_body" where
  "buying n = Body (Some (JNum (Finite (of_int n))))"

text \<open>
  The three concurrent purchases of the test "should use atomic update to prevent race
  conditions", and one way their store calls can interleave.
\<close>

definition threePurchases :: "purchase_pc list" where
  "threePurchases = [Called fakeId (buying 3), Called fakeId (buying 2), Called fakeId (buying 4)]"

definition interleaving :: "(nat \<times> access) list" where
  "interleaving = [(1, answering 2001), (0, answering 2002), (0, answering 2003),
                   (2, answering 2004), (1, answering 2005), (2, answering 2006)]"

text \<open>The body \<open>{ "quantity": q }\<close> of an update request.\<close>

definition onlyQuantity :: "rat \<Rightarrow> sweet_body" where
  "onlyQuantity q = \<lparr>body_name = None, body_category = None, body_price = None,
                     body_quantity = Some q, body_description = None\<rparr>"

section \<open>Evaluation on the fixtures\<close>

lemma fakeId_valid: "castObjectId fakeId = Some fakeId"
  by (simp add: castObjectId_def isValidObjectId_def fakeId_def is_hex_digit_def lower_hex_def)

lemmas fixture_defs = shop_def chocolateBar_def answering_def throwing_def buying_def

lemmas response_defs = InvalidAmount_def NotFound_def InsufficientStock_def PurchaseFailed_def
  Purchased_def BadRequest_def

lemmas purchase_defs = purchaseSweet_def requested_def invalid_quantity_def isInteger_def amount_of_def
  findOneAndUpdate_def findById_def save_def pre_save_def record_call_def purchase_catch_def Let_def
  round_double_def round_nat_def excess_bits.simps

lemmas update_defs = updateSweet_def findByIdAndUpdate_def update_validators_def supplied_def
  validate_quantity_def validate_name_def validate_category_def validate_price_def validate_description_def
  apply_update_def or_else_def isInteger_def record_call_def Let_def

lemma valid_amount [simp]:
  "invalid_quantity (JNum (Finite (of_int a))) = (a < 1)"
  "amount_of (JNum (Finite (of_int a))) = a"
  by (simp_all add: invalid_quantity_def isInteger_def amount_of_def)

lemma accepted_amount:
  assumes "\<not> invalid_quantity v"
  shows "1 \<le> amount_of v \<and> \<not> to_primitive_throws v"
proof -
  from assms obtain r where v: "v = JNum (Finite r)" and r: "1 \<le> r"
    by (auto simp: invalid_quantity_def split: json.splits number.splits)
  from r have "1 \<le> \<lfloor>r\<rfloor>" by linarith
  with v show ?thesis by (simp add: amount_of_def)
qed

section \<open>Arithmetic on stored numbers\<close>

lemma round_nat_exact: "n < 2 ^ 53 \<Longrightarrow> round_nat n = n"
  by (simp add: round_nat_def excess_bits.simps)

lemma round_double_exact: "0 \<le> k \<Longrightarrow> k < 2 ^ 53 \<Longrightarrow> round_double k = k"
proof -
  assume k: "0 \<le> k" "k < 2 ^ 53"
  then have "nat k < 2 ^ 53" by (simp add: nat_less_iff)
  with k(1) show ?thesis by (simp add: round_double_def round_nat_exact)
qed

lemma round_double_nonneg: "0 \<le> k \<Longrightarrow> 0 \<le> round_double k"
  by (simp add: round_double_def)

text \<open>Just above \<open>2^53\<close> only the even integers are doubles; \<open>1e21 - 1\<close> is \<open>1e21\<close>.\<close>

lemma round_double_examples:
  "round_double 9007199254740993 = 9007199254740992"
  "round_double 9007199254740995 = 9007199254740996"
  "round_double (10 ^ 21 - 1) = 10 ^ 21"
  by (simp_all add: round_double_def round_nat_def excess_bits.simps Let_def)

section \<open>The amount of a purchase\<close>

text \<open>A body that is there and leaves \<open>quantity\<close> out is read as \<open>quantity: 1\<close>.\<close>

lemma purchase_default_amount:
  "purchaseSweet raw (Body None) e1 e2 s = purchaseSweet raw (Body (Some (JNum (Finite 1)))) e1 e2 s"
  by (simp add: purchaseSweet_def requested_def)

text \<open>
  C8. A purchase request that has no body leaves the amount unspecified, and is not
  treated as a purchase of 1: the destructuring of \<open>req.body\<close> throws, the handler
  answers 500 and the store is untouched, where the purchase of 1 of the same item answers
  200 with the quantity down from 10 to 9.
\<close>

theorem purchase_without_body:
  "purchaseSweet fakeId NoBody (answering 2000) (answering 2001) (shop 10 True)
     = (Response 500 False (Some [Text ''Error processing purchase'']) NoData, shop 10 True)
   \<and> fst (purchaseSweet fakeId (Body (Some (JNum (Finite 1)))) (answering 2000) (answering 2001) (shop 10 True))
     = Response 200 True (Some [Text ''Purchase successful''])
         (Doc fakeId (chocolateBar 9 True\<lparr>updatedAt := 2000\<rparr>))
   \<and> fst (purchaseSweet fakeId (Body None) (answering 2000) (answering 2001) (shop 10 True))
     = Response 200 True (Some [Text ''Purchase successful''])
         (Doc fakeId (chocolateBar 9 True\<lparr>updatedAt := 2000\<rparr>))"
  by (simp add: purchase_defs response_defs fixture_defs fakeId_valid)

text \<open>
  An amount that is not a positive integer and that the comparison can convert is
  answered \<open>InvalidAmount\<close>, with the store handed back as it was received: no call was
  made.
\<close>

lemma purchase_invalid_amount:
  assumes "\<And>n. 1 \<le> n \<Longrightarrow> v \<noteq> JNum (Finite (of_int n))" and "\<not> to_primitive_throws v"
  shows "purchaseSweet raw (Body (Some v)) e1 e2 s
           = (Response 400 False (Some [Text ''Quantity must be a positive integer'']) NoData, s)"
proof -
  have "invalid_quantity v"
  proof (rule ccontr)
    assume "\<not> invalid_quantity v"
    then obtain r where v: "v = JNum (Finite r)" and r: "1 \<le> r" "r = of_int \<lfloor>r\<rfloor>"
      by (auto simp: invalid_quantity_def isInteger_def split: json.splits number.splits)
    from r(1) have "1 \<le> \<lfloor>r\<rfloor>" by linarith
    with assms(1) [of "\<lfloor>r\<rfloor>"] v r(2) show False by simp
  qed
  with assms(2) show ?thesis
    by (simp add: purchaseSweet_def requested_def InvalidAmount_def)
qed

lemma purchase_invalid_amount_examples:
  "purchaseSweet fakeId (Body (Some (JNum (Finite 0)))) (answering 2000) (answering 2001) (shop 10 True)
     = (Response 400 False (Some [Text ''Quantity must be a positive integer'']) NoData, shop 10 True)"
  "purchaseSweet fakeId (Body (Some (JNum (Finite (- 1))))) (answering 2000) (answering 2001) (shop 10 True)
     = (Response 400 False (Some [Text ''Quantity must be a positive integer'']) NoData, shop 10 True)"
  "purchaseSweet fakeId (Body (Some (JNum (Finite (3 / 2))))) (answering 2000) (answering 2001) (shop 10 True)
     = (Response 400 False (Some [Text ''Quantity must be a positive integer'']) NoData, shop 10 True)"
  "purchaseSweet fakeId (Body (Some (JNum PosInfinity))) (answering 2000) (answering 2001) (shop 10 True)
     = (Response 400 False (Some [Text ''Quantity must be a positive integer'']) NoData, shop 10 True)"
  "purchaseSweet fakeId (Body (Some (JStr ''3''))) (answering 2000) (answering 2001) (shop 10 True)
     = (Response 400 False (Some [Text ''Quantity must be a positive integer'']) NoData, shop 10 True)"
proof -
  have a: "\<And>n. 1 \<le> n \<Longrightarrow> JNum (Finite 0) \<noteq> JNum (Finite (of_int n))" by auto
  have b: "\<And>n. 1 \<le> n \<Longrightarrow> JNum (Finite (- 1)) \<noteq> JNum (Finite (of_int n))" by auto
  have c: "\<And>n::int. 1 \<le> n \<Longrightarrow> JNum (Finite (3 / 2)) \<noteq> JNum (Finite (of_int n))"
  proof
    fix n :: int assume "JNum (Finite (3 / 2)) = JNum (Finite (of_int n))"
    then have "(3::rat) = of_int (2 * n)" by simp
    then have "(3::int) = 2 * n" using of_int_eq_iff [where ?'a = rat, of 3 "2 * n"] by simp
    then show False by presburger
  qed
  show "purchaseSweet fakeId (Body (Some (JNum (Finite 0)))) (answering 2000) (answering 2001) (shop 10 True)
     = (Response 400 False (Some [Text ''Quantity must be a positive integer'']) NoData, shop 10 True)"
    by (rule purchase_invalid_amount [OF a]) simp_all
  show "purchaseSweet fakeId (Body (Some (JNum (Finite (- 1))))) (answering 2000) (answering 2001) (shop 10 True)
     = (Response 400 False (Some [Text ''Quantity must be a positive integer'']) NoData, shop 10 True)"
    by (rule purchase_invalid_amount [OF b]) simp_all
  show "purchaseSweet fakeId (Body (Some (JNum (Finite (3 / 2))))) (answering 2000) (answering 2001) (shop 10 True)
     = (Response 400 False (Some [Text ''Quantity must be a positive integer'']) NoData, shop 10 True)"
    by (rule purchase_invalid_amount [OF c]) simp_all
  show "purchaseSweet fakeId (Body (Some (JNum PosInfinity))) (answering 2000) (answering 2001) (shop 10 True)
     = (Response 400 False (Some [Text ''Quantity must be a positive integer'']) NoData, shop 10 True)"
    by (rule purchase_invalid_amount) simp_all
  show "purchaseSweet fakeId (Body (Some (JStr ''3''))) (answering 2000) (answering 2001) (shop 10 True)
     = (Response 400 False (Some [Text ''Quantity must be a positive integer'']) NoData, shop 10 True)"
    by (rule purchase_invalid_amount) simp_all
qed

text \<open>An amount that the comparison cannot convert is answered 500, the store untouched.\<close>

lemma purchase_unconvertible:
  assumes "to_primitive_throws v"
  shows "purchaseSweet raw (Body (Some v)) e1 e2 s
           = (Response 500 False (Some [Text ''Error processing purchase'']) NoData, s)"
  using assms by (simp add: purchaseSweet_def requested_def purchase_catch_def PurchaseFailed_def)

text \<open>
  C5. The amount \<open>{ "valueOf": 1, "toString": 1 }\<close> is not a positive integer, and the
  purchase does not answer \<open>InvalidAmount\<close>: \<open>quantity < 1\<close> throws a \<open>TypeError\<close>
  and the \<open>catch\<close> block answers 500. No store call is made and the store is as it
  was.
\<close>

theorem purchase_unconvertible_amount:
  "purchaseSweet fakeId (Body (Some (JObj [(''valueOf'', JNum (Finite 1)), (''toString'', JNum (Finite 1))])))
       (answering 2000) (answering 2001) (shop 10 True)
     = (Response 500 False (Some [Text ''Error processing purchase'']) NoData, shop 10 True)
   \<and> InvalidAmount = Response 400 False (Some [Text ''Quantity must be a positive integer'']) NoData"
  by (simp add: purchaseSweet_def requested_def purchase_catch_def PurchaseFailed_def InvalidAmount_def)

section \<open>A purchase that finds enough stock\<close>

text \<open>
  C3, as amended. For an item with quantity \<open>Q \<le> 2^53\<close> and a whole amount \<open>a\<close> with
  \<open>1 \<le> a \<le> Q\<close>, when neither store call throws, the purchase answers 200 with the
  item at quantity \<open>Q - a\<close> and \<open>inStock = (Q - a > 0)\<close>, its other fields as they
  were, and the collection holds that same item afterwards. (\<open>updatedAt\<close> is the time
  of the last store call that wrote.)
\<close>

theorem purchase_success:
  assumes "castObjectId raw = Some i" and "docs s i = Some d"
    and "1 \<le> a" and "a \<le> quantity d" and "quantity d \<le> 2 ^ 53"
    and "\<not> failing e1" and "\<not> failing e2"
  shows "fst (purchaseSweet raw (Body (Some (JNum (Finite (of_int a))))) e1 e2 s)
           = Response 200 True (Some [Text ''Purchase successful''])
               (Doc i (d\<lparr>quantity := quantity d - a, inStock := (0 < quantity d - a),
                  updatedAt := (if inStock d = (0 < quantity d - a) then now e1 else now e2)\<rparr>))
       \<and> docs (snd (purchaseSweet raw (Body (Some (JNum (Finite (of_int a))))) e1 e2 s))
           = (docs s)(i \<mapsto> d\<lparr>quantity := quantity d - a, inStock := (0 < quantity d - a),
               updatedAt := (if inStock d = (0 < quantity d - a) then now e1 else now e2)\<rparr>)"
proof -
  from assms(3-5) have "round_double (quantity d - a) = quantity d - a"
    by (intro round_double_exact) auto
  with assms show ?thesis
    by (cases d)
       (auto simp add: purchaseSweet_def requested_def findOneAndUpdate_def save_def pre_save_def
          record_call_def Purchased_def Let_def)
qed

theorem purchase_success_witness:
  "castObjectId fakeId = Some fakeId \<and> docs (shop 1 True) fakeId = Some (chocolateBar 1 True)
   \<and> (1::int) \<le> 1 \<and> 1 \<le> quantity (chocolateBar 1 True) \<and> quantity (chocolateBar 1 True) \<le> 2 ^ 53
   \<and> \<not> failing (answering 2000) \<and> \<not> failing (answering 2001)
   \<and> fst (purchaseSweet fakeId (Body (Some (JNum (Finite 1)))) (answering 2000) (answering 2001) (shop 1 True))
       = Response 200 True (Some [Text ''Purchase successful''])
           (Doc fakeId (chocolateBar 0 False\<lparr>updatedAt := 2001\<rparr>))
   \<and> docs (snd (purchaseSweet fakeId (Body (Some (JNum (Finite 1)))) (answering 2000) (answering 2001) (shop 1 True))) fakeId
       = Some (chocolateBar 0 False\<lparr>updatedAt := 2001\<rparr>)"
proof -
  have h: "docs (shop 1 True) fakeId = Some (chocolateBar 1 True)" "1 \<le> quantity (chocolateBar 1 True)"
    "quantity (chocolateBar 1 True) \<le> 2 ^ 53"
    "\<not> failing (answering 2000)" "\<not> failing (answering 2001)"
    by (simp_all add: fixture_defs)
  from purchase_success [OF fakeId_valid h(1) order_refl h(2) h(3) h(4) h(5)] h fakeId_valid
  show ?thesis
    by (simp add: fixture_defs)
qed

text \<open>
  The claim as stated fails beyond \<open>2^53\<close>: an item at quantity \<open>2^53 + 2\<close>, a
  purchase of 1, and the quantity returned and stored is \<open>2^53\<close>, two less.
\<close>

theorem purchase_rounding_counterexample:
  "fst (purchaseSweet fakeId (Body (Some (JNum (Finite 1)))) (answering 2000) (answering 2001)
          (shop 9007199254740994 True))
     = Response 200 True (Some [Text ''Purchase successful''])
         (Doc fakeId (chocolateBar 9007199254740992 True\<lparr>updatedAt := 2000\<rparr>))
   \<and> docs (snd (purchaseSweet fakeId (Body (Some (JNum (Finite 1)))) (answering 2000) (answering 2001)
          (shop 9007199254740994 True))) fakeId
     = Some (chocolateBar 9007199254740992 True\<lparr>updatedAt := 2000\<rparr>)
   \<and> (9007199254740994::int) - 1 \<noteq> 9007199254740992"
  by (simp add: purchase_defs response_defs fixture_defs fakeId_valid)

text \<open>Scenario A of the specification: quantity 10, purchase of 3.\<close>

lemma scenario_A:
  "fst (purchaseSweet fakeId (Body (Some (JNum (Finite 3)))) (answering 2000) (answering 2001) (shop 10 True))
     = Response 200 True (Some [Text ''Purchase successful''])
         (Doc fakeId (chocolateBar 7 True\<lparr>updatedAt := 2000\<rparr>))"
  by (simp add: purchase_defs response_defs fixture_defs fakeId_valid)

section \<open>A purchase whose conditional decrement matches nothing\<close>

text \<open>
  C6. When the conditional decrement returns no document, the purchase makes one more
  store call, a \<open>findById\<close>, and then answers: the calls it leaves on record are the
  decrement and that one lookup. When the lookup returns, the answer is 404
  \<open>Sweet not found\<close> if no item has the id, and otherwise 400 with the message
  \<open>Insufficient quantity. Only ${quantity} available.\<close>, the quantity being the one of
  the item that the lookup read. The last part says the same of the handler resumed in any
  store \<open>s2\<close>, the one other requests may have left by the time of the lookup: the
  handler responds in that step.
\<close>

theorem purchase_no_match:
  assumes "1 \<le> a" and "castObjectId raw = Some i" and "fst (findOneAndUpdate raw a e1 s) = Inr None"
  shows "(\<exists>r. purchaseSweet raw (Body (Some (JNum (Finite (of_int a))))) e1 e2 s
            = (r, s\<lparr>calls := calls s @ [(OpFindOneAndUpdate i a, Returned None),
                                        (OpFindById i, if failing e2 then Threw else Returned (docs s i))]\<rparr>))
       \<and> (\<not> failing e2 \<longrightarrow>
            fst (purchaseSweet raw (Body (Some (JNum (Finite (of_int a))))) e1 e2 s)
              = (case docs s i of
                   None \<Rightarrow> Response 404 False (Some [Text ''Sweet not found'']) NoData
                 | Some d \<Rightarrow>
                     Response 400 False
                       (Some [Text ''Insufficient quantity. Only '', Number (quantity d), Text '' available.''])
                       NoData))
       \<and> (\<forall>s2. \<not> failing e2 \<longrightarrow>
            purchase_step (AwaitFindById raw) e2 s2
              = (Responded
                   (case docs s2 i of
                      None \<Rightarrow> Response 404 False (Some [Text ''Sweet not found'']) NoData
                    | Some d \<Rightarrow>
                        Response 400 False
                          (Some [Text ''Insufficient quantity. Only '', Number (quantity d), Text '' available.''])
                          NoData),
                 s2\<lparr>calls := calls s2 @ [(OpFindById i, Returned (docs s2 i))]\<rparr>))"
proof -
  from assms(2,3) have f: "\<not> failing e1"
    by (auto simp: findOneAndUpdate_def split: if_splits)
  from assms(2,3) f have s1: "findOneAndUpdate raw a e1 s
      = (Inr None, s\<lparr>calls := calls s @ [(OpFindOneAndUpdate i a, Returned None)]\<rparr>)"
    by (auto simp: findOneAndUpdate_def record_call_def Let_def split: option.splits if_splits)
  show ?thesis
    using assms(1,2) s1
    by (auto simp: purchaseSweet_def requested_def findById_def record_call_def NotFound_def
        InsufficientStock_def split: option.splits)
qed

theorem purchase_no_match_witness:
  "(1::int) \<le> 10 \<and> castObjectId fakeId = Some fakeId
   \<and> fst (findOneAndUpdate fakeId 10 (answering 2000) (shop 5 True)) = Inr None
   \<and> \<not> failing (answering 2001)
   \<and> purchaseSweet fakeId (Body (Some (JNum (Finite 10)))) (answering 2000) (answering 2001) (shop 5 True)
       = (Response 400 False (Some [Text ''Insufficient quantity. Only '', Number 5, Text '' available.'']) NoData,
          (shop 5 True)\<lparr>calls := [(OpFindOneAndUpdate fakeId 10, Returned None),
                                  (OpFindById fakeId, Returned (Some (chocolateBar 5 True)))]\<rparr>)"
proof -
  have h: "fst (findOneAndUpdate fakeId 10 (answering 2000) (shop 5 True)) = Inr None"
    by (simp add: findOneAndUpdate_def fakeId_valid fixture_defs record_call_def)
  have d: "docs (shop 5 True) fakeId = Some (chocolateBar 5 True)" "calls (shop 5 True) = []"
    "\<not> failing (answering 2001)" "quantity (chocolateBar 5 True) = 5"
    by (simp_all add: fixture_defs)
  have "(1::int) \<le> 10" by simp
  from purchase_no_match [OF this fakeId_valid h, of "answering 2001"] h d fakeId_valid
  show ?thesis by auto
qed

text \<open>Scenario D: no item under the id.\<close>

lemma scenario_D:
  "fst (purchaseSweet fakeId (Body (Some (JNum (Finite 1)))) (answering 2000) (answering 2001)
          \<lparr>docs = Map.empty, calls = []\<rparr>)
     = Response 404 False (Some [Text ''Sweet not found'']) NoData"
  by (simp add: purchase_defs response_defs fixture_defs fakeId_valid)

section \<open>Identifiers that do not cast\<close>

text \<open>
  C9. For an id that is not a well-formed ObjectId, \<open>getSweetById\<close> answers
  \<open>NotFound\<close>, the 404 \<open>Sweet not found\<close>, and so does a purchase whose amount passed
  the validation (the only purchases that reach the lookup); both hand back the store
  untouched. These are the answers that a well-formed id with no item under it gets, and
  such a purchase leaves the collection as it was too.
\<close>

theorem malformed_id_not_found:
  assumes "\<not> isValidObjectId raw"
  shows "getSweetById raw e s = (NotFound, s)
       \<and> (\<not> invalid_quantity (requested q) \<longrightarrow> purchaseSweet raw (Body q) e1 e2 s = (NotFound, s))
       \<and> (\<forall>j k. castObjectId j = Some k \<and> docs s k = None
                 \<and> \<not> failing e \<and> \<not> failing e1 \<and> \<not> failing e2 \<longrightarrow>
            fst (getSweetById j e s) = fst (getSweetById raw e s)
          \<and> fst (purchaseSweet j body e1 e2 s) = fst (purchaseSweet raw body e1 e2 s)
          \<and> docs (snd (purchaseSweet j body e1 e2 s)) = docs s)
       \<and> NotFound = Response 404 False (Some [Text ''Sweet not found'']) NoData"
proof -
  from assms have c: "castObjectId raw = None" by (simp add: castObjectId_def)
  have 1: "getSweetById raw e s = (NotFound, s)"
    using c by (simp add: getSweetById_def findById_def)
  have 2: "\<not> invalid_quantity (requested q) \<longrightarrow> purchaseSweet raw (Body q) e1 e2 s = (NotFound, s)"
    using c accepted_amount [of "requested q"]
    by (auto simp: purchaseSweet_def findOneAndUpdate_def purchase_catch_def Let_def)
  have 3: "fst (getSweetById j e s) = fst (getSweetById raw e s)
          \<and> fst (purchaseSweet j body e1 e2 s) = fst (purchaseSweet raw body e1 e2 s)
          \<and> docs (snd (purchaseSweet j body e1 e2 s)) = docs s"
    if "castObjectId j = Some k" "docs s k = None" "\<not> failing e" "\<not> failing e1" "\<not> failing e2" for j k
    using that c
    by (cases body)
       (auto simp: getSweetById_def purchaseSweet_def findById_def findOneAndUpdate_def
          purchase_catch_def record_call_def Let_def)
  from 1 2 3 show ?thesis by (auto simp: NotFound_def)
qed

theorem malformed_id_not_found_witness:
  "\<not> isValidObjectId ''not-an-id''
   \<and> getSweetById ''not-an-id'' (answering 2000) (shop 5 True) = (NotFound, shop 5 True)
   \<and> \<not> invalid_quantity (requested (Some (JNum (Finite 2))))
   \<and> purchaseSweet ''not-an-id'' (Body (Some (JNum (Finite 2)))) (answering 2000) (answering 2001) (shop 5 True)
       = (NotFound, shop 5 True)"
proof -
  have h: "\<not> isValidObjectId ''not-an-id''" by (simp add: isValidObjectId_def)
  have v: "\<not> invalid_quantity (requested (Some (JNum (Finite 2))))"
    by (simp add: requested_def invalid_quantity_def isInteger_def)
  from malformed_id_not_found [OF h, of "answering 2000" "shop 5 True" "Some (JNum (Finite 2))" "answering 2000" "answering 2001"] h v
  show ?thesis by blast
qed

text \<open>An id is found under any spelling of its hexadecimal digits.\<close>

lemma upper_case_id:
  "fst (getSweetById ''507F1F77BCF86CD799439011'' (answering 2000) (shop 5 True))
     = Response 200 True None (Doc fakeId (chocolateBar 5 True))"
  by (simp add: getSweetById_def findById_def castObjectId_def isValidObjectId_def is_hex_digit_def
      lower_hex_def record_call_def fixture_defs fakeId_def)

section \<open>Purchases that fail\<close>

text \<open>
  C7, as amended. A purchase that fails, and whose failure is not a \<open>save\<close> that
  threw, leaves the collection as it was: every item keeps its quantity and its
  \<open>inStock\<close>. This covers \<open>InvalidAmount\<close>, \<open>NotFound\<close>, \<open>InsufficientStock\<close>,
  a request that throws before any store call, and a store call that throws in the
  conditional decrement or in the lookup after it. The purchase whose \<open>save\<close> throws is
  the one left out: the decrement it has made stays, as the counterexample below shows.
\<close>

theorem purchase_failure_unchanged:
  assumes "purchaseSweet raw body e1 e2 s = (r, s')" and "\<not> success r"
    and "\<And>k. castObjectId raw = Some k \<Longrightarrow> (OpSave k, Threw) \<notin> set (drop (length (calls s)) (calls s'))"
  shows "docs s' = docs s"
proof (cases "\<exists>q. body = Body q \<and> \<not> to_primitive_throws (requested q) \<and> \<not> invalid_quantity (requested q)")
  case False
  with assms(1) show ?thesis
    by (cases body) (auto simp: purchaseSweet_def Let_def split: if_splits)
next
  case True
  then obtain q where b: "body = Body q" "\<not> to_primitive_throws (requested q)"
    "\<not> invalid_quantity (requested q)" by blast
  obtain x s1 where f: "findOneAndUpdate raw (amount_of (requested q)) e1 s = (x, s1)"
    by (cases "findOneAndUpdate raw (amount_of (requested q)) e1 s")
  show ?thesis
  proof (cases x)
    case (Inl err)
    with f have "docs s1 = docs s"
      by (auto simp: findOneAndUpdate_def record_call_def Let_def split: if_splits option.splits)
    with assms(1) b f Inl show ?thesis by (auto simp: purchaseSweet_def)
  next
    case (Inr found)
    show ?thesis
    proof (cases found)
      case None
      with f Inr have "docs s1 = docs s"
        by (auto simp: findOneAndUpdate_def record_call_def Let_def split: if_splits option.splits)
      moreover from assms(1) b f Inr None have "docs s' = docs s1"
        by (auto simp: purchaseSweet_def findById_def record_call_def split: if_splits option.splits)
      ultimately show ?thesis by simp
    next
      case (Some found_doc)
      obtain i sweet where fd: "found_doc = (i, sweet)" by (cases found_doc)
      from f Inr Some fd have k: "castObjectId raw = Some i"
        and c1: "calls s1 = calls s @ [(OpFindOneAndUpdate i (amount_of (requested q)), Returned (Some sweet))]"
        by (auto simp: findOneAndUpdate_def record_call_def Let_def split: if_splits option.splits)
      from assms(1,2) b f Inr Some fd
      have "calls s' = calls s1 @ [(OpSave i, Threw)]"
        by (auto simp: purchaseSweet_def save_def record_call_def Let_def Purchased_def
            split: if_splits option.splits)
      with c1 assms(3) [OF k] show ?thesis by simp
    qed
  qed
qed

theorem purchase_failure_unchanged_witness:
  "purchaseSweet fakeId (Body (Some (JNum (Finite 10)))) (answering 2000) (throwing 2001) (shop 5 True)
     = (PurchaseFailed, (shop 5 True)\<lparr>calls := [(OpFindOneAndUpdate fakeId 10, Returned None), (OpFindById fakeId, Threw)]\<rparr>)
   \<and> \<not> success PurchaseFailed
   \<and> docs (snd (purchaseSweet fakeId (Body (Some (JNum (Finite 10)))) (answering 2000) (throwing 2001) (shop 5 True)))
       = docs (shop 5 True)"
proof -
  have p: "purchaseSweet fakeId (Body (Some (JNum (Finite 10)))) (answering 2000) (throwing 2001) (shop 5 True)
     = (PurchaseFailed, (shop 5 True)\<lparr>calls := [(OpFindOneAndUpdate fakeId 10, Returned None), (OpFindById fakeId, Threw)]\<rparr>)"
    by (simp add: purchase_defs fixture_defs fakeId_valid)
  have n: "\<not> success PurchaseFailed" by (simp add: PurchaseFailed_def)
  have c: "(OpSave k, Threw) \<notin> set (drop (length (calls (shop 5 True)))
      (calls ((shop 5 True)\<lparr>calls := [(OpFindOneAndUpdate fakeId 10, Returned None), (OpFindById fakeId, Threw)]\<rparr>)))" for k
    by (simp add: shop_def)
  from purchase_failure_unchanged [OF p n c] p n show ?thesis by simp
qed

text \<open>
  The claim as stated fails where the store throws in \<open>save\<close>: the purchase answers
  500 and the item, at quantity 5 before, is at quantity 4 after.
\<close>

theorem purchase_failure_counterexample:
  "\<not> success (fst (purchaseSweet fakeId (Body (Some (JNum (Finite 1)))) (answering 2000) (throwing 2001) (shop 5 True)))
   \<and> status (fst (purchaseSweet fakeId (Body (Some (JNum (Finite 1)))) (answering 2000) (throwing 2001) (shop 5 True))) = 500
   \<and> map_option quantity (docs (shop 5 True) fakeId) = Some 5
   \<and> map_option quantity (docs (snd (purchaseSweet fakeId (Body (Some (JNum (Finite 1)))) (answering 2000) (throwing 2001) (shop 5 True))) fakeId) = Some 4"
  by (simp add: purchase_defs fixture_defs fakeId_valid PurchaseFailed_def)

section \<open>The two store calls of a purchase\<close>

text \<open>The handler run on its own is its first two steps.\<close>

lemma purchaseSweet_two_steps:
  "purchase_step (fst (purchase_step (Called raw body) e1 s)) e2 (snd (purchase_step (Called raw body) e1 s))
     = (Responded (fst (purchaseSweet raw body e1 e2 s)), snd (purchaseSweet raw body e1 e2 s))"
  by (cases body)
     (auto simp: purchaseSweet_def Let_def split: prod.splits sum.splits option.splits)

text \<open>
  C2, as amended. In a purchase that finds enough stock, the test \<open>quantity \<ge> amount\<close>
  and the decrement are one store call, which changes the quantity and \<open>updatedAt\<close> and
  leaves \<open>inStock\<close> as it was (the new quantity is \<open>Q - a\<close> for \<open>Q \<le> 2^53\<close>); the
  handler then recomputes \<open>inStock\<close> from the document it got back and writes it with a
  second store call, \<open>save\<close>. After the first call the collection holds the item with
  the new quantity and the old \<open>inStock\<close>. When the \<open>save\<close> runs in the store that the
  first call left, no other call in between, the collection holds the item with that
  quantity and \<open>inStock = (quantity > 0)\<close> after it.
\<close>

theorem purchase_two_store_calls:
  assumes "castObjectId raw = Some i" and "docs s i = Some d" and "1 \<le> a" and "a \<le> quantity d"
    and "\<not> failing e1" and "\<not> failing e2"
    and "purchase_step (Called raw (Body (Some (JNum (Finite (of_int a)))))) e1 s = (p1, s1)"
    and "purchase_step p1 e2 s1 = (p2, s2)"
  shows "\<exists>d1. p1 = AwaitSave i d1
            \<and> d1 = d\<lparr>quantity := quantity d1, updatedAt := now e1\<rparr>
            \<and> (quantity d \<le> 2 ^ 53 \<longrightarrow> quantity d1 = quantity d - a)
            \<and> docs s1 = (docs s)(i \<mapsto> d1)
            \<and> calls s1 = calls s @ [(OpFindOneAndUpdate i a, Returned (Some d1))]
            \<and> (\<exists>d2. p2 = Responded (Response 200 True (Some [Text ''Purchase successful'']) (Doc i d2))
                   \<and> docs s2 i = Some d2
                   \<and> quantity d2 = quantity d1 \<and> inStock d2 = (0 < quantity d1))
            \<and> (\<exists>r. calls s2 = calls s1 @ [(OpSave i, r)])"
proof -
  let ?d1 = "d\<lparr>quantity := round_double (quantity d - a), updatedAt := now e1\<rparr>"
  from assms(1-5,7) have 1: "p1 = AwaitSave i ?d1" and 2: "docs s1 = (docs s)(i \<mapsto> ?d1)"
    and 3: "calls s1 = calls s @ [(OpFindOneAndUpdate i a, Returned (Some ?d1))]"
    by (auto simp: requested_def findOneAndUpdate_def record_call_def Let_def)
  have 4: "?d1 = d\<lparr>quantity := quantity ?d1, updatedAt := now e1\<rparr>" by simp
  have 5: "quantity d \<le> 2 ^ 53 \<longrightarrow> quantity ?d1 = quantity d - a"
  proof
    assume "quantity d \<le> 2 ^ 53"
    with assms(3,4) have "round_double (quantity d - a) = quantity d - a"
      by (intro round_double_exact) auto
    then show "quantity ?d1 = quantity d - a" by simp
  qed
  from assms(6,8) 1 2
  have 6: "\<exists>d2. p2 = Responded (Response 200 True (Some [Text ''Purchase successful'']) (Doc i d2))
       \<and> docs s2 i = Some d2 \<and> quantity d2 = quantity ?d1 \<and> inStock d2 = (0 < quantity ?d1)"
    by (cases d)
       (auto simp: save_def pre_save_def record_call_def Purchased_def Let_def split: if_splits)
  from assms(6,8) 1 2 have 7: "\<exists>r. calls s2 = calls s1 @ [(OpSave i, r)]"
    by (auto simp: save_def pre_save_def record_call_def Let_def split: if_splits)
  from 1 2 3 4 5 6 7 show ?thesis by blast
qed

theorem purchase_two_store_calls_witness:
  "purchase_step (Called fakeId (Body (Some (JNum (Finite 1))))) (answering 2000) (shop 1 True)
     = (AwaitSave fakeId (chocolateBar 0 True\<lparr>updatedAt := 2000\<rparr>),
        \<lparr>docs = [fakeId \<mapsto> chocolateBar 0 True\<lparr>updatedAt := 2000\<rparr>],
         calls = [(OpFindOneAndUpdate fakeId 1, Returned (Some (chocolateBar 0 True\<lparr>updatedAt := 2000\<rparr>)))]\<rparr>)
   \<and> (\<exists>d2. fst (purchase_step (AwaitSave fakeId (chocolateBar 0 True\<lparr>updatedAt := 2000\<rparr>)) (answering 2001)
         \<lparr>docs = [fakeId \<mapsto> chocolateBar 0 True\<lparr>updatedAt := 2000\<rparr>],
          calls = [(OpFindOneAndUpdate fakeId 1, Returned (Some (chocolateBar 0 True\<lparr>updatedAt := 2000\<rparr>)))]\<rparr>)
        = Responded (Response 200 True (Some [Text ''Purchase successful'']) (Doc fakeId d2))
        \<and> quantity d2 = 0 \<and> inStock d2 = False)"
proof -
  let ?s1 = "\<lparr>docs = [fakeId \<mapsto> chocolateBar 0 True\<lparr>updatedAt := 2000\<rparr>],
         calls = [(OpFindOneAndUpdate fakeId 1, Returned (Some (chocolateBar 0 True\<lparr>updatedAt := 2000\<rparr>)))]\<rparr>"
  let ?p1 = "AwaitSave fakeId (chocolateBar 0 True\<lparr>updatedAt := 2000\<rparr>)"
  have a: "purchase_step (Called fakeId (Body (Some (JNum (Finite (of_int 1)))))) (answering 2000) (shop 1 True)
      = (?p1, ?s1)"
    by (simp add: purchase_defs fixture_defs fakeId_valid)
  obtain p2 s2 where b: "purchase_step ?p1 (answering 2001) ?s1 = (p2, s2)"
    by (cases "purchase_step ?p1 (answering 2001) ?s1")
  have h: "docs (shop 1 True) fakeId = Some (chocolateBar 1 True)" "1 \<le> quantity (chocolateBar 1 True)"
    "\<not> failing (answering 2000)" "\<not> failing (answering 2001)"
    by (simp_all add: fixture_defs)
  from purchase_two_store_calls [OF fakeId_valid h(1) order_refl h(2) h(3) h(4) a b] a b
  show ?thesis by (auto simp: chocolateBar_def)
qed

text \<open>
  The claim as stated fails between the two calls: the purchase of the last unit has made
  its first store call and awaits \<open>save\<close>, and a reader that runs now, \<open>getSweetById\<close>,
  is answered with quantity 0 and \<open>inStock\<close> true.
\<close>

theorem purchase_window_counterexample:
  "fst (purchase_step (Called fakeId (Body (Some (JNum (Finite 1))))) (answering 2000) (shop 1 True))
     = AwaitSave fakeId (chocolateBar 0 True\<lparr>updatedAt := 2000\<rparr>)
   \<and> fst (getSweetById fakeId (answering 2001)
           (snd (purchase_step (Called fakeId (Body (Some (JNum (Finite 1))))) (answering 2000) (shop 1 True))))
     = Response 200 True None (Doc fakeId (chocolateBar 0 True\<lparr>updatedAt := 2000\<rparr>))
   \<and> quantity (chocolateBar 0 True\<lparr>updatedAt := 2000\<rparr>) = 0
   \<and> inStock (chocolateBar 0 True\<lparr>updatedAt := 2000\<rparr>) = True"
  by (simp add: purchase_defs getSweetById_def fixture_defs fakeId_valid)

text \<open>
  With another purchase between the two calls, the \<open>save\<close> of the first can leave the
  item at quantity 0 with \<open>inStock\<close> true: two buyers of 1 at quantity 2, the second
  decrementing before the first saves. The \<open>save\<close> of the second then sets it false.
\<close>

lemma interleaved_save:
  "docs (snd (run [(0, answering 2001), (1, answering 2002), (0, answering 2003)]
                ([Called fakeId (buying 1), Called fakeId (buying 1)], shop 2 True))) fakeId
     = Some (chocolateBar 0 True\<lparr>updatedAt := 2002\<rparr>)"
  "docs (snd (run [(0, answering 2001), (1, answering 2002), (0, answering 2003), (1, answering 2004)]
                ([Called fakeId (buying 1), Called fakeId (buying 1)], shop 2 True))) fakeId
     = Some (chocolateBar 0 False\<lparr>updatedAt := 2004\<rparr>)"
  by (simp_all add: purchase_defs fixture_defs fakeId_valid)

section \<open>Concurrent purchases\<close>

lemma decremented_append [simp]:
  "decremented i (cs @ [c]) = decremented i cs + decrement_of i c"
  by (simp add: decremented_def)

text \<open>What each store call of a purchase does to the stock of an item \<open>i\<close>.\<close>

lemma findOneAndUpdate_stock:
  assumes "findOneAndUpdate raw n e s = (x, s')" and "1 \<le> n"
    and "docs s i = Some d" and "0 \<le> quantity d" and "quantity d \<le> 2 ^ 53"
  shows "\<exists>d'. docs s' i = Some d' \<and> 0 \<le> quantity d' \<and> quantity d' \<le> 2 ^ 53
            \<and> quantity d' + decremented i (calls s') = quantity d + decremented i (calls s)"
proof -
  have "round_double (quantity d - n) = quantity d - n" if "n \<le> quantity d"
    using that assms(2,5) by (intro round_double_exact) auto
  with assms show ?thesis
    by (auto simp: findOneAndUpdate_def record_call_def Let_def split: if_splits option.splits)
qed

lemma findOneAndUpdate_nonneg:
  assumes "findOneAndUpdate raw n e s = (x, s')" and "docs s i = Some d" and "0 \<le> quantity d"
  shows "\<exists>d'. docs s' i = Some d' \<and> 0 \<le> quantity d'"
  using assms
  by (auto simp: findOneAndUpdate_def record_call_def Let_def round_double_nonneg
      split: if_splits option.splits)

lemma findById_stock:
  assumes "findById raw e s = (x, s')"
  shows "docs s' = docs s \<and> decremented i (calls s') = decremented i (calls s)"
  using assms by (auto simp: findById_def record_call_def split: if_splits option.splits)

lemma save_stock:
  assumes "save j loaded w e s = (x, s')" and "docs s i = Some d"
  shows "\<exists>d'. docs s' i = Some d' \<and> quantity d' = quantity d
            \<and> decremented i (calls s') = decremented i (calls s)"
  using assms
  by (auto simp: save_def record_call_def Let_def split: if_splits option.splits)

lemma purchase_step_stock:
  assumes "purchase_step p e s = (p', s')" and "docs s i = Some d"
    and "0 \<le> quantity d" and "quantity d \<le> 2 ^ 53"
  shows "\<exists>d'. docs s' i = Some d' \<and> 0 \<le> quantity d' \<and> quantity d' \<le> 2 ^ 53
            \<and> quantity d' + decremented i (calls s') = quantity d + decremented i (calls s)"
proof (cases p)
  case (Called raw body)
  show ?thesis
  proof (cases "\<exists>q. body = Body q \<and> \<not> to_primitive_throws (requested q) \<and> \<not> invalid_quantity (requested q)")
    case False
    with assms(1) Called have "s' = s"
      by (cases body) (auto simp: Let_def split: if_splits)
    with assms show ?thesis by simp
  next
    case True
    then obtain q where b: "body = Body q" "\<not> to_primitive_throws (requested q)"
      "\<not> invalid_quantity (requested q)" by blast
    obtain x s1 where f: "findOneAndUpdate raw (amount_of (requested q)) e s = (x, s1)"
      by (cases "findOneAndUpdate raw (amount_of (requested q)) e s")
    with assms(1) Called b have "s' = s1"
      by (auto split: sum.splits option.splits)
    moreover from b(3) have "1 \<le> amount_of (requested q)" by (simp add: accepted_amount)
    ultimately show ?thesis
      using findOneAndUpdate_stock [OF f _ assms(2,3,4)] by simp
  qed
next
  case (AwaitFindById raw)
  obtain x s1 where f: "findById raw e s = (x, s1)" by (cases "findById raw e s")
  with assms(1) AwaitFindById have "s' = s1" by (auto split: sum.splits option.splits)
  with findById_stock [OF f, of i] assms(2,3,4) show ?thesis by simp
next
  case (AwaitSave j sweet)
  obtain x s1 where f: "save j sweet (sweet\<lparr>inStock := (quantity sweet > 0)\<rparr>) e s = (x, s1)"
    by (cases "save j sweet (sweet\<lparr>inStock := (quantity sweet > 0)\<rparr>) e s")
  with assms(1) AwaitSave have "s' = s1" by (auto split: sum.splits)
  with save_stock [OF f assms(2)] assms(3,4) show ?thesis by auto
next
  case (Responded r)
  with assms show ?thesis by simp
qed

text \<open>
  The record of matched decrements follows the handlers: a handler's first step adds its
  amount exactly when it goes on to \<open>save\<close>, the only way to the answer 200, and no
  later step adds anything.
\<close>

lemma purchase_step_decrement:
  assumes "purchase_step (Called raw (Body q)) e s = (p, s')" and "castObjectId raw = Some i"
  shows "decremented i (calls s') = decremented i (calls s)
           + (case p of AwaitSave j sweet \<Rightarrow> amount_of (requested q) | _ \<Rightarrow> 0)"
  using assms
  by (auto simp: findOneAndUpdate_def record_call_def Let_def split: if_splits option.splits)

lemma purchase_step_later:
  assumes "purchase_step p e s = (p', s')" and "\<forall>raw body. p \<noteq> Called raw body"
  shows "decremented i (calls s') = decremented i (calls s)
       \<and> (status_of p' = Some 200 \<longrightarrow> (\<exists>j sweet. p = AwaitSave j sweet) \<or> p = p')"
  using assms
  by (cases p)
     (auto simp: findById_def save_def record_call_def Let_def purchase_catch_def status_of_def
        NotFound_def InsufficientStock_def PurchaseFailed_def
        split: if_splits option.splits)

text \<open>
  C4, as amended. Any number of purchase handlers run against the store, their store calls
  interleaved in any order and any of them throwing. For an item that starts at a
  quantity \<open>Q\<close> with \<open>0 \<le> Q \<le> 2^53\<close>, at every point of the run, the end included,
  the item is there, its quantity is \<open>Q\<close> minus the sum of the amounts of the conditional
  decrements that matched it during the run, and the quantity is not negative.
\<close>

theorem concurrent_purchases_stock:
  assumes "run sched (ps, s) = (ps', s')" and "docs s i = Some d"
    and "0 \<le> quantity d" and "quantity d \<le> 2 ^ 53"
  shows "\<exists>d'. docs s' i = Some d' \<and> 0 \<le> quantity d'
            \<and> quantity d' = quantity d - (decremented i (calls s') - decremented i (calls s))"
  using assms
proof (induction sched arbitrary: ps s d)
  case Nil
  then show ?case by simp
next
  case (Cons ke sched)
  obtain k e where ke: "ke = (k, e)" by (cases ke)
  show ?case
  proof (cases "k < length ps")
    case False
    with Cons.prems ke have "run sched (ps, s) = (ps', s')" by simp
    from Cons.IH [OF this Cons.prems(2,3,4)] show ?thesis .
  next
    case True
    obtain p1 s1 where st: "purchase_step (ps ! k) e s = (p1, s1)"
      by (cases "purchase_step (ps ! k) e s")
    with Cons.prems(1) ke True have r: "run sched (ps[k := p1], s1) = (ps', s')" by simp
    from purchase_step_stock [OF st Cons.prems(2,3,4)] obtain d1 where
      d1: "docs s1 i = Some d1" "0 \<le> quantity d1" "quantity d1 \<le> 2 ^ 53"
        "quantity d1 + decremented i (calls s1) = quantity d + decremented i (calls s)"
      by blast
    from Cons.IH [OF r d1(1,2,3)] d1(4) show ?thesis by auto
  qed
qed

text \<open>Scenario E: quantity 10 and concurrent purchases of 3, 2 and 4 end at quantity 1.\<close>

theorem concurrent_purchases_stock_witness:
  "docs (shop 10 True) fakeId = Some (chocolateBar 10 True) \<and> 0 \<le> quantity (chocolateBar 10 True)
   \<and> quantity (chocolateBar 10 True) \<le> 2 ^ 53
   \<and> decremented fakeId (calls (shop 10 True)) = 0
   \<and> decremented fakeId (calls (snd (run interleaving (threePurchases, shop 10 True)))) = 3 + 2 + 4
   \<and> map_option quantity (docs (snd (run interleaving (threePurchases, shop 10 True))) fakeId) = Some 1"
proof -
  have h: "docs (shop 10 True) fakeId = Some (chocolateBar 10 True)" "0 \<le> quantity (chocolateBar 10 True)"
    "quantity (chocolateBar 10 True) \<le> 2 ^ 53"
    "quantity (chocolateBar 10 True) = 10" "decremented fakeId (calls (shop 10 True)) = 0"
    by (simp_all add: fixture_defs decremented_def)
  have c: "decremented fakeId (calls (snd (run interleaving (threePurchases, shop 10 True)))) = 9"
    by (simp add: interleaving_def threePurchases_def purchase_defs fixture_defs fakeId_valid decremented_def)
  have r: "run interleaving (threePurchases, shop 10 True)
      = (fst (run interleaving (threePurchases, shop 10 True)), snd (run interleaving (threePurchases, shop 10 True)))"
    by simp
  from concurrent_purchases_stock [OF r h(1,2,3)] h c show ?thesis by auto
qed

text \<open>In that run all three handlers answered 200.\<close>

lemma scenario_E_responses:
  "map status_of (fst (run interleaving (threePurchases, shop 10 True))) = [Some 200, Some 200, Some 200]"
  by (simp add: interleaving_def threePurchases_def purchase_defs fixture_defs fakeId_valid Purchased_def
      status_of_def)

text \<open>
  The claim as stated fails beyond \<open>2^53\<close>: one purchase of 1 from an item at
  \<open>2^53 + 2\<close> is the only decrement on record, and the quantity at the end is
  \<open>2^53\<close>, not \<open>2^53 + 1\<close>.
\<close>

theorem concurrent_purchases_rounding_counterexample:
  "map_option quantity (docs (shop 9007199254740994 True) fakeId) = Some 9007199254740994
   \<and> decremented fakeId (calls (shop 9007199254740994 True)) = 0
   \<and> decremented fakeId (calls (snd (run [(0, answering 2001), (0, answering 2002)]
        ([Called fakeId (Body (Some (JNum (Finite 1))))], shop 9007199254740994 True)))) = 1
   \<and> map_option quantity (docs (snd (run [(0, answering 2001), (0, answering 2002)]
        ([Called fakeId (Body (Some (JNum (Finite 1))))], shop 9007199254740994 True))) fakeId)
       = Some 9007199254740992
   \<and> (9007199254740994::int) - 1 \<noteq> 9007199254740992"
  by (simp add: purchase_defs fixture_defs fakeId_valid decremented_def)

text \<open>Whatever the quantities, no purchase step makes a quantity negative.\<close>

lemma purchase_step_nonneg:
  assumes "purchase_step p e s = (p', s')" and "docs s i = Some d" and "0 \<le> quantity d"
  shows "\<exists>d'. docs s' i = Some d' \<and> 0 \<le> quantity d'"
proof (cases p)
  case (Called raw body)
  show ?thesis
  proof (cases body)
    case NoBody
    with assms Called show ?thesis by simp
  next
    case (Body q)
    obtain x s1 where f: "findOneAndUpdate raw (amount_of (requested q)) e s = (x, s1)"
      by (cases "findOneAndUpdate raw (amount_of (requested q)) e s")
    with assms(1) Called Body have "s' = s \<or> s' = s1"
      by (auto simp: Let_def split: if_splits sum.splits option.splits)
    with findOneAndUpdate_nonneg [OF f assms(2,3)] assms(2,3) show ?thesis by auto
  qed
next
  case (AwaitFindById raw)
  obtain x s1 where f: "findById raw e s = (x, s1)" by (cases "findById raw e s")
  with assms(1) AwaitFindById have "s' = s1" by (auto split: sum.splits option.splits)
  with findById_stock [OF f, of i] assms(2,3) show ?thesis by simp
next
  case (AwaitSave j sweet)
  obtain x s1 where f: "save j sweet (sweet\<lparr>inStock := (quantity sweet > 0)\<rparr>) e s = (x, s1)"
    by (cases "save j sweet (sweet\<lparr>inStock := (quantity sweet > 0)\<rparr>) e s")
  with assms(1) AwaitSave have "s' = s1" by (auto split: sum.splits)
  with save_stock [OF f assms(2)] assms(3) show ?thesis by auto
next
  case (Responded r)
  with assms show ?thesis by simp
qed

section \<open>inStock on create, update and purchase\<close>

text \<open>
  A document that \<open>createSweet\<close> answers with has \<open>inStock = (quantity > 0)\<close>, set by
  the \<open>save\<close> hook, and so has one that \<open>purchaseSweet\<close> answers with.
\<close>

lemma createSweet_inStock:
  assumes "createSweet fresh b e s = (Response 201 ok m (Doc j d), s')"
  shows "inStock d = (0 < quantity d) \<and> docs s' fresh = Some d"
  using assms
  by (auto simp: createSweet_def create_def pre_save_def BadRequest_def record_call_def Let_def
      split: if_splits sum.splits thrown.splits)

lemma purchaseSweet_inStock:
  assumes "purchaseSweet raw body e1 e2 s = (Response 200 ok m (Doc j d), s')"
  shows "inStock d = (0 < quantity d)"
proof -
  have "save i' l w e t = (Inr d', t') \<Longrightarrow> inStock d' = (0 < quantity d')" for i' l w e t d' t'
    by (cases w) (auto simp: save_def pre_save_def Let_def split: if_splits option.splits)
  with assms show ?thesis
    by (cases body)
       (auto simp: purchaseSweet_def InvalidAmount_def NotFound_def InsufficientStock_def
          PurchaseFailed_def Purchased_def purchase_catch_def Let_def
          split: if_splits sum.splits option.splits prod.splits)
qed

text \<open>
  C1. \<open>updateSweet\<close> does not keep \<open>inStock = (quantity > 0)\<close>: it writes with
  \<open>findByIdAndUpdate\<close>, on which the \<open>save\<close> hook does not run, and its update has no
  \<open>inStock\<close>. An item at quantity 5, in stock, updated with \<open>{ "quantity": 0 }\<close>: the
  answer is 200, and the item is stored and returned with quantity 0 and \<open>inStock\<close> true.
\<close>

theorem update_to_zero_keeps_inStock:
  "updateSweet fakeId (onlyQuantity 0) (answering 2000) (shop 5 True)
     = (Response 200 True (Some [Text ''Sweet updated successfully''])
          (Doc fakeId (chocolateBar 0 True\<lparr>updatedAt := 2000\<rparr>)),
        \<lparr>docs = [fakeId \<mapsto> chocolateBar 0 True\<lparr>updatedAt := 2000\<rparr>],
         calls = [(OpFindByIdAndUpdate fakeId, Returned (Some (chocolateBar 0 True\<lparr>updatedAt := 2000\<rparr>)))]\<rparr>)
   \<and> quantity (chocolateBar 0 True\<lparr>updatedAt := 2000\<rparr>) = 0
   \<and> inStock (chocolateBar 0 True\<lparr>updatedAt := 2000\<rparr>) = True"
  by (simp add: update_defs onlyQuantity_def fixture_defs fakeId_valid)

text \<open>The other way round: an item out of stock, restocked to 10, stays \<open>inStock\<close> false.\<close>

lemma restock_keeps_inStock_false:
  "docs (snd (updateSweet fakeId (onlyQuantity 10) (answering 2000) (shop 0 False))) fakeId
     = Some (chocolateBar 10 False\<lparr>updatedAt := 2000\<rparr>)"
  by (simp add: update_defs onlyQuantity_def fixture_defs fakeId_valid)

section \<open>What an update leaves alone\<close>

lemma findByIdAndUpdate_frame:
  assumes "findByIdAndUpdate raw b e s = (x, s')"
  shows "dom (docs s') = dom (docs s)
       \<and> (\<forall>j. castObjectId raw \<noteq> Some j \<longrightarrow> docs s' j = docs s j)
       \<and> (\<forall>i d. castObjectId raw = Some i \<and> docs s i = Some d \<longrightarrow>
            (if \<exists>found. x = Inr (Some found) then docs s' i = Some (apply_update b (now e) d)
             else docs s' i = Some d))"
  using assms
  by (auto simp: findByIdAndUpdate_def record_call_def Let_def split: if_splits option.splits)

lemma apply_update_frame:
  "createdAt (apply_update b t d) = createdAt d \<and> inStock (apply_update b t d) = inStock d
   \<and> updatedAt (apply_update b t d) = t
   \<and> (body_name b = None \<longrightarrow> name (apply_update b t d) = name d)
   \<and> (body_category b = None \<longrightarrow> category (apply_update b t d) = category d)
   \<and> (body_price b = None \<longrightarrow> price (apply_update b t d) = price d)
   \<and> (body_quantity b = None \<longrightarrow> quantity (apply_update b t d) = quantity d)
   \<and> (body_description b = None \<longrightarrow> description (apply_update b t d) = description d)"
  by (simp add: apply_update_def or_else_def)

text \<open>
  C10, as amended. Whatever an update request supplies and however it ends, the
  collection has the same ids afterwards, every other item is as it was, and the item of
  the request keeps its id, its \<open>createdAt\<close>, its \<open>inStock\<close>, and each of \<open>name\<close>,
  \<open>category\<close>, \<open>price\<close>, \<open>quantity\<close> and \<open>description\<close> that the body does not
  supply. The exception is \<open>updatedAt\<close>, which no body supplies: an update that is
  answered 200 sets it to the time of the update; an update answered otherwise leaves the
  whole item as it was.
\<close>

theorem update_frame:
  assumes "updateSweet raw b e s = (r, s')"
  shows "dom (docs s') = dom (docs s)
       \<and> (\<forall>j. castObjectId raw \<noteq> Some j \<longrightarrow> docs s' j = docs s j)
       \<and> (\<forall>i d. castObjectId raw = Some i \<and> docs s i = Some d \<longrightarrow>
            (\<exists>d'. docs s' i = Some d' \<and> createdAt d' = createdAt d \<and> inStock d' = inStock d
               \<and> (body_name b = None \<longrightarrow> name d' = name d)
               \<and> (body_category b = None \<longrightarrow> category d' = category d)
               \<and> (body_price b = None \<longrightarrow> price d' = price d)
               \<and> (body_quantity b = None \<longrightarrow> quantity d' = quantity d)
               \<and> (body_description b = None \<longrightarrow> description d' = description d)
               \<and> (if status r = 200 then updatedAt d' = now e else d' = d)))"
proof -
  have "(s' = s \<and> status r \<noteq> 200)
      \<or> (\<exists>x. findByIdAndUpdate raw b e s = (x, s') \<and> (status r = 200) = (\<exists>found. x = Inr (Some found)))"
    using assms
    by (auto simp: updateSweet_def BadRequest_def NotFound_def
        split: if_splits prod.splits sum.splits option.splits thrown.splits)
  then show ?thesis
  proof
    assume "s' = s \<and> status r \<noteq> 200" then show ?thesis by simp
  next
    assume "\<exists>x. findByIdAndUpdate raw b e s = (x, s') \<and> (status r = 200) = (\<exists>found. x = Inr (Some found))"
    then obtain x where x: "findByIdAndUpdate raw b e s = (x, s')"
      and st: "(status r = 200) = (\<exists>found. x = Inr (Some found))" by blast
    show ?thesis
    proof (cases "status r = 200")
      case True
      with findByIdAndUpdate_frame [OF x] st apply_update_frame [of b "now e"]
      show ?thesis by auto
    next
      case False
      with findByIdAndUpdate_frame [OF x] st
      show ?thesis by auto
    qed
  qed
qed

theorem update_frame_witness:
  "updateSweet fakeId (onlyQuantity 250) (answering 2000) (shop 5 True)
     = (Response 200 True (Some [Text ''Sweet updated successfully''])
          (Doc fakeId (chocolateBar 250 True\<lparr>updatedAt := 2000\<rparr>)),
        \<lparr>docs = [fakeId \<mapsto> chocolateBar 250 True\<lparr>updatedAt := 2000\<rparr>],
         calls = [(OpFindByIdAndUpdate fakeId, Returned (Some (chocolateBar 250 True\<lparr>updatedAt := 2000\<rparr>)))]\<rparr>)
   \<and> (\<exists>d'. docs (snd (updateSweet fakeId (onlyQuantity 250) (answering 2000) (shop 5 True))) fakeId = Some d'
         \<and> name d' = ''Chocolate Bar'' \<and> category d' = ''Chocolate'' \<and> price d' = 5
         \<and> description d' = Some ''Delicious chocolate'' \<and> createdAt d' = 1000 \<and> inStock d' = True
         \<and> updatedAt d' = 2000)"
proof -
  let ?s' = "\<lparr>docs = [fakeId \<mapsto> chocolateBar 250 True\<lparr>updatedAt := 2000\<rparr>],
         calls = [(OpFindByIdAndUpdate fakeId, Returned (Some (chocolateBar 250 True\<lparr>updatedAt := 2000\<rparr>)))]\<rparr>"
  let ?r = "Response 200 True (Some [Text ''Sweet updated successfully''])
          (Doc fakeId (chocolateBar 250 True\<lparr>updatedAt := 2000\<rparr>))"
  have u: "updateSweet fakeId (onlyQuantity 250) (answering 2000) (shop 5 True) = (?r, ?s')"
    by (simp add: update_defs onlyQuantity_def fixture_defs fakeId_valid)
  have d: "docs (shop 5 True) fakeId = Some (chocolateBar 5 True)" by (simp add: fixture_defs)
  have b: "body_name (onlyQuantity 250) = None" "body_category (onlyQuantity 250) = None"
    "body_price (onlyQuantity 250) = None" "body_description (onlyQuantity 250) = None"
    "status ?r = 200" "now (answering 2000) = 2000"
    by (simp_all add: onlyQuantity_def answering_def)
  from update_frame [OF u] fakeId_valid d b
  have "\<exists>d'. docs ?s' fakeId = Some d' \<and> createdAt d' = createdAt (chocolateBar 5 True)
      \<and> inStock d' = inStock (chocolateBar 5 True) \<and> name d' = name (chocolateBar 5 True)
      \<and> category d' = category (chocolateBar 5 True) \<and> price d' = price (chocolateBar 5 True)
      \<and> description d' = description (chocolateBar 5 True) \<and> updatedAt d' = 2000"
    by auto
  then show ?thesis using u by (auto simp: chocolateBar_def)
qed

text \<open>
  The claim as stated fails at \<open>updatedAt\<close>: the body \<open>{ "quantity": 250 }\<close> does not
  supply it, and the update moves it from 1000 to 2000.
\<close>

theorem update_touches_updatedAt_counterexample:
  "body_name (onlyQuantity 250) = None \<and> body_category (onlyQuantity 250) = None
   \<and> body_price (onlyQuantity 250) = None \<and> body_description (onlyQuantity 250) = None
   \<and> status (fst (updateSweet fakeId (onlyQuantity 250) (answering 2000) (shop 5 True))) = 200
   \<and> map_option updatedAt (docs (shop 5 True) fakeId) = Some 1000
   \<and> map_option updatedAt (docs (snd (updateSweet fakeId (onlyQuantity 250) (answering 2000) (shop 5 True))) fakeId)
       = Some 2000"
  by (simp add: update_defs onlyQuantity_def fixture_defs fakeId_valid)


end
